theory Spec2Isabelle
  imports Main
begin

section \<open>The Prometheus authentication tester (scripts/test-advanced.py)\<close>

text \<open>
  The script is one class, \<open>PrometheusAuthTester\<close>, and a \<open>main\<close> function. It sends
  HTTP GET requests through the \<open>requests\<close> library, classifies each reply, keeps two
  counters and prints to standard output.

  The embedding makes the effects explicit:
  \<^item> the object and what it has printed are a record that each method takes and returns;
  \<^item> \<open>requests.get\<close> is a parameter \<open>get\<close>: a function from the request and the state
    of the outside world to a reply and the next state of the world. It either returns a
    response or raises a \<open>RequestException\<close>, as the library documents;
  \<^item> \<open>os.environ\<close> is a map from names to values;
  \<^item> an exception that the script does not catch is a value \<open>Inl\<close> of a sum type, with
    the state the object was in when it was raised.
  Python strings are \<open>string\<close>s holding UTF-8 bytes, so the pictographs of the script's
  messages are written byte by byte.
\<close>

subsection \<open>Python values\<close>

text \<open>
  What \<open>response.json()\<close> can return, and so what the third component of the tuple
  returned by \<open>_make_request\<close> can be. A \<open>str\<close> is \<open>JStr\<close> whether it was parsed from
  JSON or is the raw text of the reply. A float is kept as its literal: the script never
  computes with one. A dict is the list of its items, keys distinct.
\<close>

datatype json =
    JNone
  | JBool bool
  | JInt int
  | JFloat string
  | JStr string
  | JList "json list"
  | JDict "(string \<times> json) list"

text \<open>The exceptions that the script itself can raise and does not catch.\<close>

datatype exn = AttributeError | TypeError

text \<open>\<open>isinstance(data, dict)\<close>\<close>

fun isinstance_dict :: "json \<Rightarrow> bool" where
  "isinstance_dict (JDict kvs) = True"
| "isinstance_dict v = False"

text \<open>
  \<open>d.get(key, default)\<close>: the value stored under the key, the default when the key is
  missing, and \<open>AttributeError\<close> when \<open>d\<close> is not a dict (no other JSON value has a
  \<open>get\<close> attribute).
\<close>

fun dict_get :: "json \<Rightarrow> string \<Rightarrow> json \<Rightarrow> exn + json" where
  "dict_get (JDict kvs) key dflt =
     (case map_of kvs key of Some v \<Rightarrow> Inr v | None \<Rightarrow> Inr dflt)"
| "dict_get v key dflt = Inl AttributeError"

text \<open>
  \<open>len(s)\<close> of a \<open>str\<close> counts code points: the bytes of the UTF-8 text that are not
  continuation bytes (\<open>10xxxxxx\<close>).
\<close>

definition is_continuation :: "char \<Rightarrow> bool" where
  "is_continuation c = ((128::nat) \<le> of_char c \<and> of_char c < (192::nat))"

definition str_len :: "string \<Rightarrow> nat" where
  "str_len s = length (filter (\<lambda>c. \<not> is_continuation c) s)"

text \<open>
  \<open>len(v)\<close>: defined on lists, dicts and strings; \<open>TypeError\<close> on \<open>None\<close>, booleans and
  numbers.
\<close>

fun len :: "json \<Rightarrow> exn + nat" where
  "len (JList xs) = Inr (length xs)"
| "len (JDict kvs) = Inr (length (remdups (map fst kvs)))"
| "len (JStr s) = Inr (str_len s)"
| "len v = Inl TypeError"

text \<open>\<open>str(n)\<close> of an integer, as the f-strings format it.\<close>

fun str_nat :: "nat \<Rightarrow> string" where
  "str_nat n =
     (if n < 10 then [''0123456789'' ! n]
      else str_nat (n div 10) @ [''0123456789'' ! (n mod 10)])"

definition str_int :: "int \<Rightarrow> string" where
  "str_int i = (if i < 0 then CHR ''-'' # str_nat (nat (- i)) else str_nat (nat i))"

text \<open>\<open>s.rstrip(chars)\<close>: drops every trailing character that occurs in \<open>chars\<close>.\<close>

definition rstrip :: "string \<Rightarrow> string \<Rightarrow> string" where
  "rstrip s chars = rev (dropWhile (\<lambda>c. c \<in> set chars) (rev s))"

text \<open>The truth value of \<open>os.environ.get(name)\<close>: set, and not the empty string.\<close>

fun truthy :: "string option \<Rightarrow> bool" where
  "truthy None = False"
| "truthy (Some v) = (v \<noteq> [])"

subsection \<open>The tester object and standard output\<close>

text \<open>
  The four attributes set by \<open>__init__\<close>, and \<open>stdout\<close>: the arguments of the calls of
  \<open>print\<close> so far, oldest first.
\<close>

record tester =
  base_url :: string
  verbose :: bool
  tests_passed :: int
  tests_failed :: int
  stdout :: "string list"

definition print :: "string \<Rightarrow> tester \<Rightarrow> tester" where
  "print line s = s\<lparr>stdout := stdout s @ [line]\<rparr>"

text \<open>\<open>__init__\<close>, on a process that has printed nothing yet.\<close>

definition init :: "string \<Rightarrow> bool \<Rightarrow> tester" where
  "init url v =
     \<lparr>base_url = rstrip url ''/'', verbose = v, tests_passed = 0, tests_failed = 0,
      stdout = []\<rparr>"

text \<open>The pictographs of the messages, in UTF-8.\<close>

definition check_mark :: string where
  "check_mark = [CHR 0xE2, CHR 0x9C, CHR 0x85]"

definition cross_mark :: string where
  "cross_mark = [CHR 0xE2, CHR 0x9D, CHR 0x8C]"

definition keycap :: string where
  "keycap = [CHR 0xEF, CHR 0xB8, CHR 0x8F, CHR 0xE2, CHR 0x83, CHR 0xA3]"

definition warning_sign :: string where
  "warning_sign = [CHR 0xE2, CHR 0x9A, CHR 0xA0, CHR 0xEF, CHR 0xB8, CHR 0x8F]"

definition laptop :: string where
  "laptop = [CHR 0xF0, CHR 0x9F, CHR 0x92, CHR 0xBB]"

definition padlock :: string where
  "padlock = [CHR 0xF0, CHR 0x9F, CHR 0x94, CHR 0x90]"

definition bar_chart :: string where
  "bar_chart = [CHR 0xF0, CHR 0x9F, CHR 0x93, CHR 0x8A]"

text \<open>\<open>_print_result(test_name, success, details)\<close>\<close>

definition print_result :: "string \<Rightarrow> bool \<Rightarrow> string \<Rightarrow> tester \<Rightarrow> tester" where
  "print_result test_name success details s =
     (let s1 = (if success
                then (print (''  '' @ check_mark @ '' PASSED - '' @ test_name) s)
                       \<lparr>tests_passed := tests_passed s + 1\<rparr>
                else (print (''  '' @ cross_mark @ '' FAILED - '' @ test_name) s)
                       \<lparr>tests_failed := tests_failed s + 1\<rparr>)
      in if details \<noteq> [] \<and> verbose s1 then print (''     Details: '' @ details) s1
         else s1)"

subsection \<open>Requests and replies\<close>

datatype auth = HTTPBasicAuth string string

text \<open>The arguments of \<open>requests.get\<close>.\<close>

record request =
  url :: string
  params :: "(string \<times> string) list option"
  headers :: "(string \<times> string) list option"
  auth :: "auth option"
  timeout :: nat
  verify :: bool

text \<open>
  A response: its \<open>status_code\<close>, its \<open>text\<close>, and what \<open>json()\<close> returns, \<open>None\<close> when
  it raises \<open>json.JSONDecodeError\<close>.
\<close>

record response =
  status_code :: int
  resp_text :: string
  resp_json :: "json option"

datatype reply = Response response | RequestException string

type_synonym 'w http = "request \<Rightarrow> 'w \<Rightarrow> reply \<times> 'w"

text \<open>\<open>_make_request(endpoint, params, headers, auth)\<close>\<close>

definition make_request ::
  "'w http \<Rightarrow> tester \<Rightarrow> string \<Rightarrow> (string \<times> string) list option \<Rightarrow>
   (string \<times> string) list option \<Rightarrow> auth option \<Rightarrow> 'w \<Rightarrow> (bool \<times> int \<times> json) \<times> 'w" where
  "make_request get s endpoint ps hs a w =
     (let u = base_url s @ endpoint in
      case get \<lparr>url = u, params = ps, headers = hs, auth = a, timeout = 10,
                verify = False\<rparr> w of
        (Response r, w') \<Rightarrow>
          if status_code r = 200 then
            (case resp_json r of
               Some d \<Rightarrow> ((True, status_code r, d), w')
             | None \<Rightarrow> ((True, status_code r, JStr (resp_text r)), w'))
          else ((False, status_code r, JStr (resp_text r)), w')
      | (RequestException e, w') \<Rightarrow> ((False, 0, JStr e), w'))"

subsection \<open>The test groups\<close>

text \<open>\<open>test_no_auth\<close>\<close>

definition test_no_auth :: "'w http \<Rightarrow> tester \<Rightarrow> 'w \<Rightarrow> tester \<times> 'w" where
  "test_no_auth get s w =
     (let s1 = print (CHR 0x0A # ''1'' @ keycap @ ''  No Authentication Test'') s;
          s2 = print (replicate 30 CHR ''-'') s1;
          ((success, code, data), w1) =
             make_request get s2 ''/api/v1/query'' (Some [(''query'', ''up'')]) None None w;
          s3 = print_result ''Query without auth'' success (''HTTP '' @ str_int code) s2;
          ((success, code, data), w2) = make_request get s3 ''/metrics'' None None None w1;
          s4 = print_result ''Metrics endpoint'' success (''HTTP '' @ str_int code) s3;
          ((success, code, data), w3) = make_request get s4 ''/-/healthy'' None None None w2;
          s5 = print_result ''Health endpoint'' success (''HTTP '' @ str_int code) s4
      in (s5, w3))"

text \<open>\<open>test_bearer_token(token)\<close>\<close>

definition test_bearer_token :: "'w http \<Rightarrow> string \<Rightarrow> tester \<Rightarrow> 'w \<Rightarrow> tester \<times> 'w" where
  "test_bearer_token get token s w =
     (let s1 = print (CHR 0x0A # ''2'' @ keycap @ ''  Bearer Token Authentication Test'') s;
          s2 = print (replicate 40 CHR ''-'') s1;
          hs = [(''Authorization'', ''Bearer '' @ token)];
          ((success, code, data), w1) =
             make_request get s2 ''/api/v1/query'' (Some [(''query'', ''up'')]) (Some hs) None w;
          s3 = print_result ''Valid bearer token'' success (''HTTP '' @ str_int code) s2;
          hs = [(''Authorization'', ''Bearer invalid-token-12345'')];
          ((success, code, data), w2) =
             make_request get s3 ''/api/v1/query'' (Some [(''query'', ''up'')]) (Some hs) None w1;
          expected = (if code = 200 then success else \<not> success);
          s4 = print_result ''Invalid bearer token handling'' expected
                 (''HTTP '' @ str_int code) s3
      in (s4, w2))"

text \<open>\<open>test_basic_auth(username, password)\<close>\<close>

definition test_basic_auth ::
  "'w http \<Rightarrow> string \<Rightarrow> string \<Rightarrow> tester \<Rightarrow> 'w \<Rightarrow> tester \<times> 'w" where
  "test_basic_auth get username password s w =
     (let s1 = print (CHR 0x0A # ''3'' @ keycap @ ''  Basic Authentication Test'') s;
          s2 = print (replicate 35 CHR ''-'') s1;
          a = HTTPBasicAuth username password;
          ((success, code, data), w1) =
             make_request get s2 ''/api/v1/query'' (Some [(''query'', ''up'')]) None (Some a) w;
          s3 = print_result ''Valid credentials'' success (''HTTP '' @ str_int code) s2;
          a = HTTPBasicAuth ''wronguser'' ''wrongpass'';
          ((success, code, data), w2) =
             make_request get s3 ''/api/v1/query'' (Some [(''query'', ''up'')]) None (Some a) w1;
          expected = (if code = 200 then success else \<not> success);
          s4 = print_result ''Invalid credentials handling'' expected
                 (''HTTP '' @ str_int code) s3
      in (s4, w2))"

text \<open>\<open>test_api_token(api_token)\<close>\<close>

definition test_api_token :: "'w http \<Rightarrow> string \<Rightarrow> tester \<Rightarrow> 'w \<Rightarrow> tester \<times> 'w" where
  "test_api_token get api_token s w =
     (let s1 = print (CHR 0x0A # ''4'' @ keycap @ ''  API Token Authentication Test'') s;
          s2 = print (replicate 37 CHR ''-'') s1;
          hs = [(''X-API-Token'', api_token)];
          ((success, code, data), w1) =
             make_request get s2 ''/api/v1/query'' (Some [(''query'', ''up'')]) (Some hs) None w;
          s3 = print_result ''Valid API token'' success (''HTTP '' @ str_int code) s2;
          hs = [(''X-API-Token'', ''invalid-api-token'')];
          ((success, code, data), w2) =
             make_request get s3 ''/api/v1/query'' (Some [(''query'', ''up'')]) (Some hs) None w1;
          expected = (if code = 200 then success else \<not> success);
          s4 = print_result ''Invalid API token handling'' expected
                 (''HTTP '' @ str_int code) s3
      in (s4, w2))"

text \<open>
  \<open>test_query_samples\<close>. The list \<open>queries\<close>, the expression
  \<open>len(data.get("data", {}).get("result", []))\<close>, and the \<open>for\<close> loop over the list as a
  recursion. The loop stops at the first exception, which nothing in the script catches.
\<close>

definition queries :: "(string \<times> string) list" where
  "queries =
     [(''up'', ''Target status''),
      (''prometheus_build_info'', ''Prometheus build info''),
      (''rate(prometheus_http_requests_total[5m])'', ''HTTP request rate''),
      (''histogram_quantile(0.95, prometheus_http_request_duration_seconds_bucket)'',
       ''95th percentile latency'')]"

definition result_count :: "json \<Rightarrow> exn + nat" where
  "result_count data =
     (case dict_get data ''data'' (JDict []) of
        Inl e \<Rightarrow> Inl e
      | Inr d \<Rightarrow> (case dict_get d ''result'' (JList []) of
                    Inl e \<Rightarrow> Inl e
                  | Inr r \<Rightarrow> len r))"

fun test_query_samples_loop ::
  "'w http \<Rightarrow> (string \<times> string) list \<Rightarrow> tester \<Rightarrow> 'w \<Rightarrow>
   (exn \<times> tester \<times> 'w) + (tester \<times> 'w)" where
  "test_query_samples_loop get [] s w = Inr (s, w)"
| "test_query_samples_loop get ((query, description) # rest) s w =
     (let ((success, code, data), w1) =
             make_request get s ''/api/v1/query'' (Some [(''query'', query)]) None None w
      in if success \<and> isinstance_dict data
            \<and> dict_get data ''status'' JNone = Inr (JStr ''success'')
         then (case result_count data of
                 Inl e \<Rightarrow> Inl (e, s, w1)
               | Inr n \<Rightarrow>
                   test_query_samples_loop get rest
                     (print_result description True (str_int (int n) @ '' results'') s) w1)
         else test_query_samples_loop get rest
                (print_result description success (''HTTP '' @ str_int code) s) w1)"

definition test_query_samples ::
  "'w http \<Rightarrow> tester \<Rightarrow> 'w \<Rightarrow> (exn \<times> tester \<times> 'w) + (tester \<times> 'w)" where
  "test_query_samples get s w =
     (let s1 = print (CHR 0x0A # ''5'' @ keycap @ ''  Sample Query Tests'') s;
          s2 = print (replicate 25 CHR ''-'') s1
      in test_query_samples_loop get queries s2 w)"

text \<open>\<open>show_python_examples\<close>: the text between the triple quotes, line by line.\<close>

definition examples_text :: string where
  "examples_text = CHR 0x0A # concat (map (\<lambda>l. l @ [CHR 0x0A])
     [
      ''# 1. No Authentication'',
      ''import requests'',
      [],
      ''response = requests.get('http://localhost:9090/api/v1/query', '',
      ''                       params={'query': 'up'})'',
      ''data = response.json()'',
      [],
      ''# 2. Bearer Token'',
      ''headers = {'Authorization': 'Bearer your-token-here'}'',
      ''response = requests.get('http://localhost:9090/api/v1/query','',
      ''                       params={'query': 'up'},'',
      ''                       headers=headers)'',
      [],
      ''# 3. Basic Authentication'',
      ''from requests.auth import HTTPBasicAuth'',
      [],
      ''response = requests.get('http://localhost:9090/api/v1/query','',
      ''                       params={'query': 'up'},'',
      ''                       auth=HTTPBasicAuth('username', 'password'))'',
      [],
      ''# 4. Custom API Token'',
      ''headers = {'X-API-Token': 'your-api-token'}'',
      ''response = requests.get('http://localhost:9090/api/v1/query','',
      ''                       params={'query': 'up'},'',
      ''                       headers=headers)'',
      [],
      ''# 5. Using prometheus-api-client library'',
      ''from prometheus_api_client import PrometheusConnect'',
      [],
      ''# No auth'',
      ''prom = PrometheusConnect(url='http://localhost:9090')'',
      [],
      ''# With headers (bearer token or custom headers)'',
      ''prom = PrometheusConnect('',
      ''    url='http://localhost:9090','',
      ''    headers={'Authorization': 'Bearer your-token'}'',
      '')'',
      [],
      ''# Query data'',
      ''result = prom.custom_query(query='up')''
     ])"

definition show_python_examples :: "tester \<Rightarrow> tester" where
  "show_python_examples s =
     (let s1 = print (CHR 0x0A # laptop @ '' Python Authentication Examples'') s;
          s2 = print (replicate 40 CHR ''='') s1
      in print examples_text s2)"

subsection \<open>The run\<close>

text \<open>
  \<open>run_all_tests\<close>, block by block. First the three blocks that read the environment and
  either run a group or print that it is skipped.
\<close>

definition bearer_token_stage ::
  "'w http \<Rightarrow> (string \<rightharpoonup> string) \<Rightarrow> tester \<Rightarrow> 'w \<Rightarrow> tester \<times> 'w" where
  "bearer_token_stage get env s w =
     (let bearer_token = env ''PROM_BEARER_TOKEN'' in
      if truthy bearer_token then test_bearer_token get (the bearer_token) s w
      else
        (let s1 = print (CHR 0x0A # ''2'' @ keycap @ ''  Bearer Token Test - '' @ warning_sign
                           @ ''  SKIPPED'') s;
             s2 = print ''   Set PROM_BEARER_TOKEN environment variable to test'' s1
         in (s2, w)))"

definition basic_auth_stage ::
  "'w http \<Rightarrow> (string \<rightharpoonup> string) \<Rightarrow> tester \<Rightarrow> 'w \<Rightarrow> tester \<times> 'w" where
  "basic_auth_stage get env s w =
     (let basic_user = env ''PROM_BASIC_USER'';
          basic_pass = env ''PROM_BASIC_PASS'' in
      if truthy basic_user \<and> truthy basic_pass
      then test_basic_auth get (the basic_user) (the basic_pass) s w
      else
        (let s1 = print (CHR 0x0A # ''3'' @ keycap @ ''  Basic Auth Test - '' @ warning_sign
                           @ ''  SKIPPED'') s;
             s2 = print ''   Set PROM_BASIC_USER and PROM_BASIC_PASS to test'' s1
         in (s2, w)))"

definition api_token_stage ::
  "'w http \<Rightarrow> (string \<rightharpoonup> string) \<Rightarrow> tester \<Rightarrow> 'w \<Rightarrow> tester \<times> 'w" where
  "api_token_stage get env s w =
     (let api_token = env ''PROM_API_TOKEN'' in
      if truthy api_token then test_api_token get (the api_token) s w
      else
        (let s1 = print (CHR 0x0A # ''4'' @ keycap @ ''  API Token Test - '' @ warning_sign
                           @ ''  SKIPPED'') s;
             s2 = print ''   Set PROM_API_TOKEN environment variable to test'' s1
         in (s2, w)))"

text \<open>The three lines that open \<open>run_all_tests\<close>, and the four that close it.\<close>

definition print_banner :: "tester \<Rightarrow> tester" where
  "print_banner s =
     (let s1 = print (padlock @ '' Prometheus Authentication Test'') s;
          s2 = print (''Target: '' @ base_url s1) s1
      in print (replicate 50 CHR ''='') s2)"

definition print_summary :: "tester \<Rightarrow> tester" where
  "print_summary s =
     (let s1 = print (CHR 0x0A # bar_chart @ '' Test Summary'') s;
          s2 = print (replicate 20 CHR ''='') s1;
          s3 = print (''Tests Passed: '' @ str_int (tests_passed s2)) s2
      in print (''Tests Failed: '' @ str_int (tests_failed s3)) s3)"

text \<open>
  \<open>run_all_tests\<close>: \<open>Inr (result, s, w)\<close> when it returns, \<open>Inl (e, s, w)\<close> when the
  exception \<open>e\<close> leaves it.
\<close>

definition run_all_tests ::
  "'w http \<Rightarrow> (string \<rightharpoonup> string) \<Rightarrow> tester \<Rightarrow> 'w \<Rightarrow>
   (exn \<times> tester \<times> 'w) + (bool \<times> tester \<times> 'w)" where
  "run_all_tests get env s w =
     (let s3 = print_banner s;
          (s4, w4) = test_no_auth get s3 w;
          (s5, w5) = bearer_token_stage get env s4 w4;
          (s6, w6) = basic_auth_stage get env s5 w5;
          (s7, w7) = api_token_stage get env s6 w6
      in case test_query_samples get s7 w7 of
           Inl x \<Rightarrow> Inl x
         | Inr (s8, w8) \<Rightarrow>
             (let s9 = show_python_examples s8;
                  s13 = print_summary s9
              in Inr (tests_failed s13 = 0, s13, w8)))"

text \<open>
  \<open>main\<close>, from the parsed arguments on: \<open>Inr (code, s, w)\<close> is \<open>sys.exit(code)\<close>, and
  \<open>Inl\<close> is an exception that leaves \<open>main\<close>. The exit status of the process is the
  argument of \<open>sys.exit\<close>, and 1 when the interpreter ends on an uncaught exception.
\<close>

definition main ::
  "'w http \<Rightarrow> (string \<rightharpoonup> string) \<Rightarrow> string \<Rightarrow> bool \<Rightarrow> 'w \<Rightarrow>
   (exn \<times> tester \<times> 'w) + (int \<times> tester \<times> 'w)" where
  "main get env args_url args_verbose w =
     (let tester = init args_url args_verbose in
      case run_all_tests get env tester w of
        Inl x \<Rightarrow> Inl x
      | Inr (success, s, w') \<Rightarrow> Inr (if success then 0 else 1, s, w'))"


subsection \<open>Observing a run\<close>

text \<open>
  Only \<open>_print_result\<close> prints a line that starts with the passed or the failed mark, and
  it prints exactly one per call. So the number of such lines on standard output is the
  number of calls of \<open>_print_result\<close> made so far.
\<close>

definition passed_line :: "string \<Rightarrow> bool" where
  "passed_line l =
     (let p = ''  '' @ check_mark @ '' PASSED - '' in take (length p) l = p)"

definition failed_line :: "string \<Rightarrow> bool" where
  "failed_line l =
     (let p = ''  '' @ cross_mark @ '' FAILED - '' in take (length p) l = p)"

text \<open>Every other line that the script prints.\<close>

definition plain :: "string \<Rightarrow> bool" where
  "plain l = (\<not> passed_line l \<and> \<not> failed_line l)"

definition passed_lines :: "tester \<Rightarrow> nat" where
  "passed_lines s = length (filter passed_line (stdout s))"

definition failed_lines :: "tester \<Rightarrow> nat" where
  "failed_lines s = length (filter failed_line (stdout s))"


text \<open>The two counters agree with what has been printed.\<close>

definition tally_ok :: "tester \<Rightarrow> bool" where
  "tally_ok s =
     (tests_passed s = int (passed_lines s) \<and> tests_failed s = int (failed_lines s))"

text \<open>
  The states that a run goes through: every method of the tester changes the state only
  by printing a plain line or by calling \<open>_print_result\<close>.
\<close>

inductive reaches :: "tester \<Rightarrow> tester \<Rightarrow> bool" where
  reaches_refl: "reaches s s"
| reaches_print: "reaches s s' \<Longrightarrow> plain l \<Longrightarrow> reaches s (print l s')"
| reaches_result: "reaches s s' \<Longrightarrow> reaches s (print_result n b d s')"

text \<open>
  The state that the exception, or the return, of a fallible method leaves behind: for
  \<open>test_query_samples\<close>, and for \<open>run_all_tests\<close> and \<open>main\<close>, which also return a
  value.
\<close>

fun state_after :: "(exn \<times> tester \<times> 'w) + (tester \<times> 'w) \<Rightarrow> tester" where
  "state_after (Inl (e, s, w)) = s"
| "state_after (Inr (s, w)) = s"

fun final_state :: "(exn \<times> tester \<times> 'w) + ('r \<times> tester \<times> 'w) \<Rightarrow> tester" where
  "final_state (Inl (e, s, w)) = s"
| "final_state (Inr (r, s, w)) = s"

subsection \<open>Servers to run the tester against\<close>

text \<open>
  A server that gives the same reply to every request, and one that is the same but
  keeps the list of the requests it has received.
\<close>

definition always :: "reply \<Rightarrow> unit http" where
  "always r req w = (r, w)"


text \<open>No server listens: every request ends in a connection error.\<close>

definition unreachable :: "unit http" where
  "unreachable = always (RequestException ''Connection refused'')"


text \<open>A server whose reply is valid JSON with a success status and \<open>null\<close> data.\<close>

definition null_data :: "unit http" where
  \<open>null_data = always (Response
     \<lparr>status_code = 200, resp_text = ''{"status":"success","data":null}'',
      resp_json = Some (JDict [(''status'', JStr ''success''), (''data'', JNone)])\<rparr>)\<close>

section \<open>Properties\<close>

subsection \<open>Printing and the counters\<close>


lemma print_fields [simp]:
  "base_url (print l s) = base_url s"
  "verbose (print l s) = verbose s"
  "tests_passed (print l s) = tests_passed s"
  "tests_failed (print l s) = tests_failed s"
  "stdout (print l s) = stdout s @ [l]"
  by (simp_all add: print_def)

lemma print_result_fields [simp]:
  "base_url (print_result n b d s) = base_url s"
  "verbose (print_result n b d s) = verbose s"
  "tests_passed (print_result n b d s) = tests_passed s + (if b then 1 else 0)"
  "tests_failed (print_result n b d s) = tests_failed s + (if b then 0 else 1)"
  by (simp_all add: print_result_def Let_def)

lemma stdout_print_result:
  "stdout (print_result n b d s) =
     stdout s @ [''  '' @ (if b then check_mark @ '' PASSED - '' else cross_mark @ '' FAILED - '') @ n]
       @ (if d \<noteq> [] \<and> verbose s then [''     Details: '' @ d] else [])"
  by (simp add: print_result_def Let_def)

lemma take3_of_prefix:
  assumes "take (length p) l = p" and "3 \<le> length p"
  shows "take 3 l = take 3 p"
proof -
  have "take 3 p = take 3 (take (length p) l)" using assms(1) by simp
  also have "\<dots> = take (min 3 (length p)) l" by (simp only: take_take)
  also have "\<dots> = take 3 l" using assms(2) by (simp add: min_def)
  finally show ?thesis by simp
qed

lemma passed_line_third: "passed_line l \<Longrightarrow> take 3 l = [CHR '' '', CHR '' '', CHR 0xE2]"
  using take3_of_prefix [of "''  '' @ check_mark @ '' PASSED - ''" l]
  by (simp add: passed_line_def check_mark_def Let_def)

lemma failed_line_third: "failed_line l \<Longrightarrow> take 3 l = [CHR '' '', CHR '' '', CHR 0xE2]"
  using take3_of_prefix [of "''  '' @ cross_mark @ '' FAILED - ''" l]
  by (simp add: failed_line_def cross_mark_def Let_def)

lemma plainI: "take 3 l \<noteq> [CHR '' '', CHR '' '', CHR 0xE2] \<Longrightarrow> plain l"
  using passed_line_third failed_line_third by (auto simp: plain_def)

lemma plain_replicate [simp]: "plain (replicate n c)"
proof (rule plainI)
  show "take 3 (replicate n c) \<noteq> [CHR '' '', CHR '' '', CHR 0xE2]"
  proof
    assume "take 3 (replicate n c) = [CHR '' '', CHR '' '', CHR 0xE2]"
    then have "set [CHR '' '', CHR '' '', CHR 0xE2] \<subseteq> {c}"
      by (metis set_take_subset set_replicate_conv_if subset_trans empty_subsetI subset_refl)
    then show False by auto
  qed
qed

lemma plain_lines [simp]:
  "plain (CHR 0x0A # x)"
  "plain (''     Details: '' @ d)"
  "plain (padlock @ x)"
  "plain (''Target: '' @ x)"
  "plain (''Tests Passed: '' @ x)"
  "plain (''Tests Failed: '' @ x)"
  "plain ''   Set PROM_BEARER_TOKEN environment variable to test''"
  "plain ''   Set PROM_BASIC_USER and PROM_BASIC_PASS to test''"
  "plain ''   Set PROM_API_TOKEN environment variable to test''"
  "plain examples_text"
  by (rule plainI, simp add: padlock_def examples_text_def)+

lemma lines_print:
  "passed_lines (print l s) = passed_lines s + (if passed_line l then 1 else 0)"
  "failed_lines (print l s) = failed_lines s + (if failed_line l then 1 else 0)"
  by (simp_all add: passed_lines_def failed_lines_def)

lemma lines_print_plain [simp]:
  "plain l \<Longrightarrow> passed_lines (print l s) = passed_lines s"
  "plain l \<Longrightarrow> failed_lines (print l s) = failed_lines s"
  by (simp_all add: plain_def lines_print)

lemma lines_print_result [simp]:
  "passed_lines (print_result n b d s) = passed_lines s + (if b then 1 else 0)"
  "failed_lines (print_result n b d s) = failed_lines s + (if b then 0 else 1)"
proof -
  define l where
    "l = ''  '' @ (if b then check_mark @ '' PASSED - '' else cross_mark @ '' FAILED - '') @ n"
  define ds where "ds = (if d \<noteq> [] \<and> verbose s then [''     Details: '' @ d] else [])"
  have l: "passed_line l = b" "failed_line l = (\<not> b)"
    by (simp_all add: l_def passed_line_def failed_line_def check_mark_def cross_mark_def Let_def)
  have ds: "filter passed_line ds = []" "filter failed_line ds = []"
    using plain_lines(2) [of d] by (simp_all add: ds_def plain_def)
  have out: "stdout (print_result n b d s) = stdout s @ [l] @ ds"
    unfolding l_def ds_def by (rule stdout_print_result)
  show "passed_lines (print_result n b d s) = passed_lines s + (if b then 1 else 0)"
    unfolding passed_lines_def out by (simp add: l ds)
  show "failed_lines (print_result n b d s) = failed_lines s + (if b then 0 else 1)"
    unfolding failed_lines_def out by (simp add: l ds)
qed

lemma tally_ok_print: "plain l \<Longrightarrow> tally_ok s \<Longrightarrow> tally_ok (print l s)"
  by (simp add: tally_ok_def)

lemma tally_ok_print_result: "tally_ok s \<Longrightarrow> tally_ok (print_result n b d s)"
  by (simp add: tally_ok_def)

lemma counters_test_no_auth:
  "tests_passed (fst (test_no_auth get s w)) + tests_failed (fst (test_no_auth get s w)) =
   tests_passed s + tests_failed s + 3"
  by (simp add: test_no_auth_def Let_def split: prod.splits)

lemma counters_test_bearer_token:
  "tests_passed (fst (test_bearer_token get t s w))
     + tests_failed (fst (test_bearer_token get t s w)) =
   tests_passed s + tests_failed s + 2"
  by (simp add: test_bearer_token_def Let_def split: prod.splits)

lemma counters_test_basic_auth:
  "tests_passed (fst (test_basic_auth get u p s w))
     + tests_failed (fst (test_basic_auth get u p s w)) =
   tests_passed s + tests_failed s + 2"
  by (simp add: test_basic_auth_def Let_def split: prod.splits)

lemma counters_test_api_token:
  "tests_passed (fst (test_api_token get t s w))
     + tests_failed (fst (test_api_token get t s w)) =
   tests_passed s + tests_failed s + 2"
  by (simp add: test_api_token_def Let_def split: prod.splits)

lemma counters_loop:
  "test_query_samples_loop get qs s w = Inr (s', w') \<Longrightarrow>
   tests_passed s' + tests_failed s' = tests_passed s + tests_failed s + int (length qs)"
proof (induction qs arbitrary: s w)
  case Nil
  then show ?case by simp
next
  case (Cons q qs)
  obtain query description where q: "q = (query, description)" by (cases q)
  show ?case
    using Cons.prems
    by (auto simp: q Let_def split: prod.splits sum.splits if_splits dest!: Cons.IH)
qed

subsection \<open>The request helper\<close>


lemma make_request_success_code:
  "make_request get s ep ps hs a w = ((b, c, d), w') \<Longrightarrow> b = (c = 200)"
  by (auto simp: make_request_def Let_def
           split: prod.splits reply.splits option.splits if_splits)

lemma expected_True:
  "make_request get s ep ps hs a w = ((b, c, d), w') \<Longrightarrow> (if c = 200 then b else \<not> b)"
  by (drule make_request_success_code) simp





subsection \<open>The base URL\<close>





subsection \<open>Recording a result\<close>

text \<open>
  C3. A call of \<open>_print_result\<close> adds one to exactly one counter and leaves the other as
  it was: \<open>tests_passed\<close> when \<open>success\<close> is true, \<open>tests_failed\<close> when it is false.
\<close>

theorem print_result_increments_one:
  "(success \<longrightarrow> tests_passed (print_result test_name success details s) = tests_passed s + 1
                \<and> tests_failed (print_result test_name success details s) = tests_failed s)
 \<and> (\<not> success \<longrightarrow> tests_failed (print_result test_name success details s) = tests_failed s + 1
                \<and> tests_passed (print_result test_name success details s) = tests_passed s)"
  by (simp add: print_result_def print_def Let_def)

theorem print_result_increments_one_witness:
  "tests_passed (print_result ''Metrics endpoint'' True ''HTTP 200''
                   (init ''http://localhost:9090'' True)) = 1
 \<and> tests_failed (print_result ''Metrics endpoint'' True ''HTTP 200''
                   (init ''http://localhost:9090'' True)) = 0
 \<and> tests_failed (print_result ''Metrics endpoint'' False ''HTTP 503''
                   (init ''http://localhost:9090'' True)) = 1
 \<and> tests_passed (print_result ''Metrics endpoint'' False ''HTTP 503''
                   (init ''http://localhost:9090'' True)) = 0"
  using print_result_increments_one [of True "''Metrics endpoint''" "''HTTP 200''"
          "init ''http://localhost:9090'' True"]
        print_result_increments_one [of False "''Metrics endpoint''" "''HTTP 503''"
          "init ''http://localhost:9090'' True"]
  by (simp add: init_def del: print_result_fields)

subsection \<open>The assertions on invalid credentials\<close>

text \<open>
  C9. Whatever \<open>_make_request\<close> returns, the expression
  \<open>success if code == 200 else not success\<close> is true. So in each of the three credential
  groups the second assertion is recorded with \<open>True\<close>: each group is equal to itself with
  \<open>True\<close> in the place of \<open>expected\<close>, and recording \<open>True\<close> leaves \<open>tests_failed\<close> as it
  was.
\<close>

theorem invalid_credentials_always_pass:
  "(\<forall>endpoint ps hs a success code data w'.
      make_request get s endpoint ps hs a w = ((success, code, data), w') \<longrightarrow>
      (if code = 200 then success else \<not> success))
 \<and> test_bearer_token get token s w =
     (let s1 = print (CHR 0x0A # ''2'' @ keycap @ ''  Bearer Token Authentication Test'') s;
          s2 = print (replicate 40 CHR ''-'') s1;
          ((success, code, data), w1) =
             make_request get s2 ''/api/v1/query'' (Some [(''query'', ''up'')])
               (Some [(''Authorization'', ''Bearer '' @ token)]) None w;
          s3 = print_result ''Valid bearer token'' success (''HTTP '' @ str_int code) s2;
          ((success, code, data), w2) =
             make_request get s3 ''/api/v1/query'' (Some [(''query'', ''up'')])
               (Some [(''Authorization'', ''Bearer invalid-token-12345'')]) None w1
      in (print_result ''Invalid bearer token handling'' True (''HTTP '' @ str_int code) s3,
          w2))
 \<and> test_basic_auth get username password s w =
     (let s1 = print (CHR 0x0A # ''3'' @ keycap @ ''  Basic Authentication Test'') s;
          s2 = print (replicate 35 CHR ''-'') s1;
          ((success, code, data), w1) =
             make_request get s2 ''/api/v1/query'' (Some [(''query'', ''up'')]) None
               (Some (HTTPBasicAuth username password)) w;
          s3 = print_result ''Valid credentials'' success (''HTTP '' @ str_int code) s2;
          ((success, code, data), w2) =
             make_request get s3 ''/api/v1/query'' (Some [(''query'', ''up'')]) None
               (Some (HTTPBasicAuth ''wronguser'' ''wrongpass'')) w1
      in (print_result ''Invalid credentials handling'' True (''HTTP '' @ str_int code) s3,
          w2))
 \<and> test_api_token get api_token s w =
     (let s1 = print (CHR 0x0A # ''4'' @ keycap @ ''  API Token Authentication Test'') s;
          s2 = print (replicate 37 CHR ''-'') s1;
          ((success, code, data), w1) =
             make_request get s2 ''/api/v1/query'' (Some [(''query'', ''up'')])
               (Some [(''X-API-Token'', api_token)]) None w;
          s3 = print_result ''Valid API token'' success (''HTTP '' @ str_int code) s2;
          ((success, code, data), w2) =
             make_request get s3 ''/api/v1/query'' (Some [(''query'', ''up'')])
               (Some [(''X-API-Token'', ''invalid-api-token'')]) None w1
      in (print_result ''Invalid API token handling'' True (''HTTP '' @ str_int code) s3,
          w2))
 \<and> tests_failed (print_result test_name True details s) = tests_failed s"
proof -
  have 1: "\<forall>endpoint ps hs a success code data w'.
      make_request get s endpoint ps hs a w = ((success, code, data), w') \<longrightarrow>
      (if code = 200 then success else \<not> success)"
    by (auto dest: make_request_success_code)
  have 2: "test_bearer_token get token s w =
     (let s1 = print (CHR 0x0A # ''2'' @ keycap @ ''  Bearer Token Authentication Test'') s;
          s2 = print (replicate 40 CHR ''-'') s1;
          ((success, code, data), w1) =
             make_request get s2 ''/api/v1/query'' (Some [(''query'', ''up'')])
               (Some [(''Authorization'', ''Bearer '' @ token)]) None w;
          s3 = print_result ''Valid bearer token'' success (''HTTP '' @ str_int code) s2;
          ((success, code, data), w2) =
             make_request get s3 ''/api/v1/query'' (Some [(''query'', ''up'')])
               (Some [(''Authorization'', ''Bearer invalid-token-12345'')]) None w1
      in (print_result ''Invalid bearer token handling'' True (''HTTP '' @ str_int code) s3,
          w2))"
    by (auto simp: test_bearer_token_def Let_def split: prod.splits
             dest: make_request_success_code)
  have 3: "test_basic_auth get username password s w =
     (let s1 = print (CHR 0x0A # ''3'' @ keycap @ ''  Basic Authentication Test'') s;
          s2 = print (replicate 35 CHR ''-'') s1;
          ((success, code, data), w1) =
             make_request get s2 ''/api/v1/query'' (Some [(''query'', ''up'')]) None
               (Some (HTTPBasicAuth username password)) w;
          s3 = print_result ''Valid credentials'' success (''HTTP '' @ str_int code) s2;
          ((success, code, data), w2) =
             make_request get s3 ''/api/v1/query'' (Some [(''query'', ''up'')]) None
               (Some (HTTPBasicAuth ''wronguser'' ''wrongpass'')) w1
      in (print_result ''Invalid credentials handling'' True (''HTTP '' @ str_int code) s3,
          w2))"
    by (auto simp: test_basic_auth_def Let_def split: prod.splits
             dest: make_request_success_code)
  have 4: "test_api_token get api_token s w =
     (let s1 = print (CHR 0x0A # ''4'' @ keycap @ ''  API Token Authentication Test'') s;
          s2 = print (replicate 37 CHR ''-'') s1;
          ((success, code, data), w1) =
             make_request get s2 ''/api/v1/query'' (Some [(''query'', ''up'')])
               (Some [(''X-API-Token'', api_token)]) None w;
          s3 = print_result ''Valid API token'' success (''HTTP '' @ str_int code) s2;
          ((success, code, data), w2) =
             make_request get s3 ''/api/v1/query'' (Some [(''query'', ''up'')])
               (Some [(''X-API-Token'', ''invalid-api-token'')]) None w1
      in (print_result ''Invalid API token handling'' True (''HTTP '' @ str_int code) s3,
          w2))"
    by (auto simp: test_api_token_def Let_def split: prod.splits
             dest: make_request_success_code)
  have 5: "tests_failed (print_result test_name True details s) = tests_failed s"
    by simp
  from 1 2 3 4 5 show ?thesis by (intro conjI)
qed

theorem invalid_credentials_always_pass_witness:
  "tests_failed (fst (test_bearer_token unreachable ''abc123''
                        (init ''http://localhost:9090'' False) ())) = 1
 \<and> tests_passed (fst (test_bearer_token unreachable ''abc123''
                        (init ''http://localhost:9090'' False) ())) = 1
 \<and> tests_failed (fst (test_basic_auth unreachable ''admin'' ''secret''
                        (init ''http://localhost:9090'' False) ())) = 1
 \<and> tests_passed (fst (test_basic_auth unreachable ''admin'' ''secret''
                        (init ''http://localhost:9090'' False) ())) = 1
 \<and> tests_failed (fst (test_api_token unreachable ''abc123''
                        (init ''http://localhost:9090'' False) ())) = 1
 \<and> tests_passed (fst (test_api_token unreachable ''abc123''
                        (init ''http://localhost:9090'' False) ())) = 1"
  using invalid_credentials_always_pass [where get = unreachable and w = "()"
          and s = "init ''http://localhost:9090'' False" and token = "''abc123''"
          and username = "''admin''" and password = "''secret''"
          and api_token = "''abc123''"]
  by (simp add: make_request_def unreachable_def always_def Let_def init_def)

subsection \<open>The states of a run\<close>

lemma reaches_trans: "reaches b c \<Longrightarrow> reaches a b \<Longrightarrow> reaches a c"
  by (induction rule: reaches.induct) (auto intro: reaches.intros)

lemma reaches_config: "reaches s s' \<Longrightarrow> base_url s' = base_url s \<and> verbose s' = verbose s"
  by (induction rule: reaches.induct) auto

lemma reaches_tally_ok: "reaches s s' \<Longrightarrow> tally_ok s \<Longrightarrow> tally_ok s'"
  by (induction rule: reaches.induct) (auto intro: tally_ok_print tally_ok_print_result)





lemma tally_ok_init: "tally_ok (init b v)"
  by (simp add: tally_ok_def init_def passed_lines_def failed_lines_def)

text \<open>Every method only prints plain lines and records results.\<close>

lemma reaches_test_no_auth: "reaches s (fst (test_no_auth get s w))"
  by (auto simp: test_no_auth_def Let_def split: prod.splits intro!: reaches.intros)

lemma reaches_test_bearer_token: "reaches s (fst (test_bearer_token get token s w))"
  by (auto simp: test_bearer_token_def Let_def split: prod.splits intro!: reaches.intros)

lemma reaches_test_basic_auth: "reaches s (fst (test_basic_auth get u p s w))"
  by (auto simp: test_basic_auth_def Let_def split: prod.splits intro!: reaches.intros)

lemma reaches_test_api_token: "reaches s (fst (test_api_token get token s w))"
  by (auto simp: test_api_token_def Let_def split: prod.splits intro!: reaches.intros)

lemma reaches_loop: "reaches s (state_after (test_query_samples_loop get qs s w))"
proof (induction qs arbitrary: s w)
  case Nil
  show ?case by (simp add: reaches_refl)
next
  case (Cons q qs)
  obtain query description where q: "q = (query, description)" by (cases q)
  have step: "reaches s (state_after (test_query_samples_loop get qs (print_result n b d s) w'))"
    for n b d w'
    by (rule reaches_trans [OF Cons.IH]) (rule reaches_result [OF reaches_refl])
  show ?case
    by (auto simp: q Let_def step reaches_refl split: prod.splits sum.splits)
qed

lemma reaches_test_query_samples: "reaches s (state_after (test_query_samples get s w))"
  unfolding test_query_samples_def Let_def
  by (rule reaches_trans [OF reaches_loop]) (auto intro!: reaches.intros)

lemma reaches_show_python_examples: "reaches s (show_python_examples s)"
  by (auto simp: show_python_examples_def Let_def intro!: reaches.intros)

lemma reaches_bearer_token_stage: "reaches s (fst (bearer_token_stage get env s w))"
  by (auto simp: bearer_token_stage_def Let_def reaches_test_bearer_token
           intro!: reaches.intros)

lemma reaches_basic_auth_stage: "reaches s (fst (basic_auth_stage get env s w))"
  by (auto simp: basic_auth_stage_def Let_def reaches_test_basic_auth
           intro!: reaches.intros)

lemma reaches_api_token_stage: "reaches s (fst (api_token_stage get env s w))"
  by (auto simp: api_token_stage_def Let_def reaches_test_api_token
           intro!: reaches.intros)

lemma plain_first [simp]: "c \<noteq> CHR '' '' \<Longrightarrow> plain (c # x)"
  by (rule plainI) simp

lemma plain_third [simp]: "c \<noteq> CHR 0xE2 \<Longrightarrow> plain (a # b # c # x)"
  by (rule plainI) simp

lemma reaches_print_banner: "reaches s (print_banner s)"
  by (auto simp: print_banner_def Let_def padlock_def intro!: reaches.intros)

lemma reaches_print_summary: "reaches s (print_summary s)"
  by (auto simp: print_summary_def Let_def intro!: reaches.intros)

lemma reaches_run_all_tests: "reaches s (final_state (run_all_tests get env s w))"
proof -
  define s3 where "s3 = print_banner s"
  obtain s4 w4 where 4: "test_no_auth get s3 w = (s4, w4)" by force
  obtain s5 w5 where 5: "bearer_token_stage get env s4 w4 = (s5, w5)" by force
  obtain s6 w6 where 6: "basic_auth_stage get env s5 w5 = (s6, w6)" by force
  obtain s7 w7 where 7: "api_token_stage get env s6 w6 = (s7, w7)" by force
  have "reaches s s3" unfolding s3_def by (rule reaches_print_banner)
  then have "reaches s s4"
    using reaches_test_no_auth [of s3 get w] by (simp add: 4 reaches_trans)
  then have "reaches s s5"
    using reaches_bearer_token_stage [of s4 get env w4] by (simp add: 5 reaches_trans)
  then have "reaches s s6"
    using reaches_basic_auth_stage [of s5 get env w5] by (simp add: 6 reaches_trans)
  then have r7: "reaches s s7"
    using reaches_api_token_stage [of s6 get env w6] by (simp add: 7 reaches_trans)
  have r8: "reaches s (state_after (test_query_samples get s7 w7))"
    by (rule reaches_trans [OF reaches_test_query_samples r7])
  have run: "run_all_tests get env s w =
    (case test_query_samples get s7 w7 of
       Inl x \<Rightarrow> Inl x
     | Inr (s8, w8) \<Rightarrow>
         Inr (tests_failed (print_summary (show_python_examples s8)) = 0,
              print_summary (show_python_examples s8), w8))"
    by (simp add: run_all_tests_def Let_def s3_def [symmetric] 4 5 6 7 split: sum.splits)
  show ?thesis
  proof (cases "test_query_samples get s7 w7")
    case (Inl x)
    then show ?thesis using r8 by (cases x) (simp add: run)
  next
    case (Inr y)
    obtain s8 w8 where y: "y = (s8, w8)" by (cases y)
    have "reaches s s8" using r8 by (simp add: Inr y)
    then have "reaches s (print_summary (show_python_examples s8))"
      by (meson reaches_trans reaches_print_summary reaches_show_python_examples)
    then show ?thesis by (simp add: run Inr y)
  qed
qed

lemma reaches_main: "reaches (init b v) (final_state (main get env b v w))"
proof -
  have "final_state (main get env b v w) = final_state (run_all_tests get env (init b v) w)"
    by (auto simp: main_def Let_def split: sum.splits)
  then show ?thesis by (simp add: reaches_run_all_tests)
qed

subsection \<open>How many results each block records\<close>

lemma counters_bearer_token_stage:
  "tests_passed (fst (bearer_token_stage get env s w))
     + tests_failed (fst (bearer_token_stage get env s w)) =
   tests_passed s + tests_failed s + (if truthy (env ''PROM_BEARER_TOKEN'') then 2 else 0)"
  by (simp add: bearer_token_stage_def Let_def counters_test_bearer_token)

lemma counters_basic_auth_stage:
  "tests_passed (fst (basic_auth_stage get env s w))
     + tests_failed (fst (basic_auth_stage get env s w)) =
   tests_passed s + tests_failed s
     + (if truthy (env ''PROM_BASIC_USER'') \<and> truthy (env ''PROM_BASIC_PASS'') then 2 else 0)"
  by (simp add: basic_auth_stage_def Let_def counters_test_basic_auth)

lemma counters_api_token_stage:
  "tests_passed (fst (api_token_stage get env s w))
     + tests_failed (fst (api_token_stage get env s w)) =
   tests_passed s + tests_failed s + (if truthy (env ''PROM_API_TOKEN'') then 2 else 0)"
  by (simp add: api_token_stage_def Let_def counters_test_api_token)

lemma counters_test_query_samples:
  "test_query_samples get s w = Inr (s', w') \<Longrightarrow>
   tests_passed s' + tests_failed s' = tests_passed s + tests_failed s + 4"
proof -
  assume "test_query_samples get s w = Inr (s', w')"
  then have "test_query_samples_loop get queries
      (print (replicate 25 CHR ''-'')
         (print (CHR 0x0A # ''5'' @ keycap @ ''  Sample Query Tests'') s)) w = Inr (s', w')"
    unfolding test_query_samples_def Let_def .
  from counters_loop [OF this] show ?thesis by (simp add: queries_def)
qed

lemma counters_print_only [simp]:
  "tests_passed (print_banner s) = tests_passed s"
  "tests_failed (print_banner s) = tests_failed s"
  "tests_passed (print_summary s) = tests_passed s"
  "tests_failed (print_summary s) = tests_failed s"
  "tests_passed (show_python_examples s) = tests_passed s"
  "tests_failed (show_python_examples s) = tests_failed s"
  by (simp_all add: print_banner_def print_summary_def show_python_examples_def Let_def)

text \<open>\<open>run_all_tests\<close> as the sequence of its blocks.\<close>

lemma run_all_tests_blocks:
  assumes "test_no_auth get (print_banner s) w = (s4, w4)"
    and "bearer_token_stage get env s4 w4 = (s5, w5)"
    and "basic_auth_stage get env s5 w5 = (s6, w6)"
    and "api_token_stage get env s6 w6 = (s7, w7)"
  shows "run_all_tests get env s w =
    (case test_query_samples get s7 w7 of
       Inl x \<Rightarrow> Inl x
     | Inr (s8, w8) \<Rightarrow>
         Inr (tests_failed s8 = 0, print_summary (show_python_examples s8), w8))"
  using assms by (simp add: run_all_tests_def Let_def split: sum.splits)

lemma run_all_tests_result:
  "run_all_tests get env s w = Inr (r, s', w') \<Longrightarrow> r = (tests_failed s' = 0)"
  by (auto simp: run_all_tests_def Let_def split: prod.splits sum.splits)

lemma counters_run_all_tests:
  assumes "run_all_tests get env s w = Inr (r, s', w')"
  shows "tests_passed s' + tests_failed s' =
     tests_passed s + tests_failed s + 7
       + (if truthy (env ''PROM_BEARER_TOKEN'') then 2 else 0)
       + (if truthy (env ''PROM_BASIC_USER'') \<and> truthy (env ''PROM_BASIC_PASS'') then 2 else 0)
       + (if truthy (env ''PROM_API_TOKEN'') then 2 else 0)"
proof -
  obtain s4 w4 where 4: "test_no_auth get (print_banner s) w = (s4, w4)" by force
  obtain s5 w5 where 5: "bearer_token_stage get env s4 w4 = (s5, w5)" by force
  obtain s6 w6 where 6: "basic_auth_stage get env s5 w5 = (s6, w6)" by force
  obtain s7 w7 where 7: "api_token_stage get env s6 w6 = (s7, w7)" by force
  note run = run_all_tests_blocks [OF 4 5 6 7]
  from assms obtain s8 where 8: "test_query_samples get s7 w7 = Inr (s8, w')"
    and s': "s' = print_summary (show_python_examples s8)"
    by (auto simp: run split: sum.splits)
  have c4: "tests_passed s4 + tests_failed s4 = tests_passed s + tests_failed s + 3"
    using counters_test_no_auth [of get "print_banner s" w] by (simp add: 4)
  have c5: "tests_passed s5 + tests_failed s5 = tests_passed s4 + tests_failed s4
      + (if truthy (env ''PROM_BEARER_TOKEN'') then 2 else 0)"
    using counters_bearer_token_stage [of get env s4 w4] by (simp add: 5)
  have c6: "tests_passed s6 + tests_failed s6 = tests_passed s5 + tests_failed s5
      + (if truthy (env ''PROM_BASIC_USER'') \<and> truthy (env ''PROM_BASIC_PASS'') then 2 else 0)"
    using counters_basic_auth_stage [of get env s5 w5] by (simp add: 6)
  have c7: "tests_passed s7 + tests_failed s7 = tests_passed s6 + tests_failed s6
      + (if truthy (env ''PROM_API_TOKEN'') then 2 else 0)"
    using counters_api_token_stage [of get env s6 w6] by (simp add: 7)
  have c8: "tests_passed s8 + tests_failed s8 = tests_passed s7 + tests_failed s7 + 4"
    by (rule counters_test_query_samples [OF 8])
  show ?thesis using c4 c5 c6 c7 c8 by (simp add: s')
qed

subsection \<open>The groups that need credentials\<close>





subsection \<open>A server that cannot be reached\<close>









end
